theory Spec2Isabelle
  imports Main
begin

section \<open>Errors and promises\<close>

text \<open>
  The client of \<^verbatim>\<open>src/lib/clients.js\<close> talks to the remote service through the
  methods of \<^verbatim>\<open>LineAPI\<close> (\<^verbatim>\<open>_getContacts\<close>, \<^verbatim>\<open>_fetchOperations\<close>, ...), each of
  which returns a promise. The remote is not part of the model: every operation takes the
  state of the promises it waits for as an argument, and returns the remote calls it
  issued, so that "performs no remote call" is a statement about that list. A promise
  that is still \<open>Pending\<close> gives the operation as far as it runs before control returns
  to the caller: handlers of \<^verbatim>\<open>then\<close> never run within the call that registers them.
\<close>

datatype error =
    Error string \<comment> \<open>\<^verbatim>\<open>new Error(msg)\<close>\<close>
  | TalkException int string \<comment> \<open>remote error: \<^verbatim>\<open>code\<close>, \<^verbatim>\<open>reason\<close>\<close>
  | TypeError \<comment> \<open>property read on \<^verbatim>\<open>null\<close> or \<^verbatim>\<open>undefined\<close>\<close>

datatype 'a promise = Pending | Resolved 'a | Rejected error

section \<open>Entities (models.js)\<close>

text \<open>
  Raw records are what the remote returns; the thrift declarations of their types are not
  part of the repository, so a raw record has the fields the constructors read. Ids are
  strings, and a raw record is always present (the branch of the \<^verbatim>\<open>LineGroup\<close>
  constructor for a missing group, which leaves the id \<^verbatim>\<open>null\<close>, is outside the model).
  \<^verbatim>\<open>iconPath\<close> is \<^verbatim>\<open>picturePath\<close> between a configured host and \<^verbatim>\<open>/preview\<close>; the
  host is a parameter of \<open>iconPath\<close>.
\<close>

record raw_contact =
  mid :: string
  displayName :: string
  picturePath :: string
  statusMessage :: string

record line_contact =
  c_id :: string
  c_name :: string
  c_picturePath :: string
  c_statusMessage :: string

definition LineContact :: "raw_contact \<Rightarrow> line_contact" where
  "LineContact contact =
     \<lparr>c_id = mid contact, c_name = displayName contact,
      c_picturePath = picturePath contact, c_statusMessage = statusMessage contact\<rparr>"

definition iconPath :: "string \<Rightarrow> line_contact \<Rightarrow> string" where
  "iconPath LINE_OS_URL c = ''http://'' @ LINE_OS_URL @ c_picturePath c @ ''/preview''"

record raw_group =
  rg_id :: string
  rg_name :: string
  rg_creator :: "raw_contact option"
  rg_invitee :: "raw_contact list option"
  rg_members :: "raw_contact list option"

record line_group =
  g_id :: string
  g_name :: string
  g_creator :: "line_contact option"
  g_invitee :: "line_contact list"
  g_members :: "line_contact list"
  g_isJoined :: bool

definition LineGroup :: "raw_group \<Rightarrow> bool \<Rightarrow> line_group" where
  "LineGroup grp isJoined =
     \<lparr>g_id = rg_id grp, g_name = rg_name grp,
      g_creator = map_option LineContact (rg_creator grp),
      g_invitee = (case rg_invitee grp of Some is \<Rightarrow> map LineContact is | None \<Rightarrow> []),
      g_members = (case rg_members grp of Some ms \<Rightarrow> map LineContact ms | None \<Rightarrow> []),
      g_isJoined = isJoined\<rparr>"

record raw_room =
  rr_mid :: string
  rr_contacts :: "raw_contact list option"

record line_room =
  r_id :: string
  r_contacts :: "line_contact list"

definition LineRoom :: "raw_room \<Rightarrow> line_room" where
  "LineRoom room =
     \<lparr>r_id = rr_mid room,
      r_contacts = (case rr_contacts room of Some cs \<Rightarrow> map LineContact cs | None \<Rightarrow> [])\<rparr>"

text \<open>
  The values the dispatcher handles as sender and receiver: \<^verbatim>\<open>undefined\<close>, one of the
  three entity objects, or (in the fallback branch) an id string. \<open>VClass\<close> is a class
  itself, as in the right-hand side of \<^verbatim>\<open>typeof receiver === LineGroup\<close>.
\<close>

datatype js_value =
    VUndefined
  | VString string
  | VContact line_contact
  | VRoom line_room
  | VGroup line_group
  | VClass string

fun truthy :: "js_value \<Rightarrow> bool" where
  "truthy VUndefined = False"
| "truthy (VString s) = (s \<noteq> [])"
| "truthy _ = True"

fun js_typeof :: "js_value \<Rightarrow> js_value" where
  "js_typeof VUndefined = VString ''undefined''"
| "js_typeof (VString s) = VString ''string''"
| "js_typeof (VClass k) = VString ''function''"
| "js_typeof _ = VString ''object''"

text \<open>
  \<^verbatim>\<open>x === s\<close> for a string \<open>s\<close>, and \<^verbatim>\<open>x === C\<close> for a class \<open>C\<close>: strict equality
  converts nothing (\<^verbatim>\<open>valueOf\<close> is not consulted), so a value of another type is never
  equal.
\<close>

fun equals_string :: "js_value \<Rightarrow> string \<Rightarrow> bool" where
  "equals_string (VString t) s = (t = s)"
| "equals_string _ s = False"

fun equals_class :: "js_value \<Rightarrow> string \<Rightarrow> bool" where
  "equals_class (VClass k) cls = (k = cls)"
| "equals_class _ cls = False"


text \<open>Raw messages and operations of the remote log, with the fields the client reads.
  The dispatcher reads the sender id as \<^verbatim>\<open>from_\<close>, the \<^verbatim>\<open>LineMessage\<close> constructor
  as \<^verbatim>\<open>_from\<close>; both are fields here.\<close>

datatype mid_type = USER | ROOM | GROUP | OtherMidType int

record raw_message =
  m_id :: string
  m_text :: string
  m_hasContent :: bool
  m_contentType :: int
  from_u :: string \<comment> \<open>the field \<^verbatim>\<open>from_\<close>\<close>
  u_from :: string \<comment> \<open>the field \<^verbatim>\<open>_from\<close>\<close>
  m_to :: string
  m_toType :: mid_type
  m_createdTime :: int

datatype op_type = END_OF_OPERATION | SEND_MESSAGE | RECEIVE_MESSAGE | OtherOpType int

record operation =
  otype :: op_type
  orevision :: int
  omessage :: "raw_message option"

record message_box =
  box_id :: string
  midType :: mid_type

record channel =
  messageBoxWrapUpList :: "message_box list option"

datatype remote_call =
    GetLastOpRevision
  | GetProfile
  | GetAllContactIds
  | GetContacts "string list"
  | GetGroups "string list"
  | GetGroupIdsJoined
  | GetGroupIdsInvited
  | GetMessageBoxCompactWrapUpList nat nat
  | GetRoom string
  | CreateGroup string "string list"
  | InviteIntoGroup string "string list"
  | AcceptGroupInvitation string
  | LeaveGroup string
  | CreateRoom "string list"
  | InviteIntoRoom string "string list"
  | LeaveRoom string
  | SendMessage raw_message int
  | GetRecentMessages string nat
  | FetchOperations int nat

section \<open>The session and its directory (clients.js)\<close>

text \<open>
  \<open>authToken\<close> and \<open>certificate\<close> are \<^verbatim>\<open>null\<close>/\<^verbatim>\<open>undefined\<close> (\<open>None\<close>) or a string.
  \<open>revision\<close> is the integer cursor that \<^verbatim>\<open>getLastOpRevision\<close> stores at login
  (before that the field is \<^verbatim>\<open>undefined\<close>, which the type leaves out).
\<close>

record client =
  authToken :: "string option"
  certificate :: "string option"
  revision :: int
  profile :: "line_contact option"
  contacts :: "line_contact list"
  rooms :: "line_room list"
  groups :: "line_group list"

text \<open>The outcome of an operation that returns a promise: the session when the promise
  settles, the remote calls issued up to then, and the settlement.\<close>

record 'a result =
  state :: client
  calls :: "remote_call list"
  settled :: "'a promise"

definition checkAuth :: "client \<Rightarrow> bool" where
  "checkAuth c = (case authToken c of None \<Rightarrow> False | Some t \<Rightarrow> t \<noteq> [])"

definition pleaseLogin :: "client \<Rightarrow> 'a result" where
  "pleaseLogin c = \<lparr>state = c, calls = [], settled = Rejected (Error ''Please Login first'')\<rparr>"

subsection \<open>Lookups\<close>

fun getContactById :: "line_contact list \<Rightarrow> string \<Rightarrow> js_value" where
  "getContactById [] i = VUndefined"
| "getContactById (x # xs) i = (if c_id x = i then VContact x else getContactById xs i)"

fun getRoomById :: "line_room list \<Rightarrow> string \<Rightarrow> js_value" where
  "getRoomById [] i = VUndefined"
| "getRoomById (x # xs) i = (if r_id x = i then VRoom x else getRoomById xs i)"

fun getGroupById :: "line_group list \<Rightarrow> string \<Rightarrow> js_value" where
  "getGroupById [] i = VUndefined"
| "getGroupById (x # xs) i = (if g_id x = i then VGroup x else getGroupById xs i)"

definition js_or :: "js_value \<Rightarrow> js_value \<Rightarrow> js_value" where
  "js_or a b = (if truthy a then a else b)"

definition getContactOrRoomOrGroupById :: "client \<Rightarrow> string \<Rightarrow> js_value" where
  "getContactOrRoomOrGroupById c i =
     js_or (getContactById (contacts c) i)
       (js_or (getRoomById (rooms c) i) (getGroupById (groups c) i))"

subsection \<open>Numbers from strings and arrays, and \<^verbatim>\<open>Array.prototype.sort\<close>\<close>

text \<open>
  The stores are sorted with the comparator \<^verbatim>\<open>(a, b) => a.id - b.id\<close>. Subtraction
  converts both ids to numbers: a string of decimal digits is its value, the empty string
  is 0, and a string with any other character is \<^verbatim>\<open>NaN\<close> (\<open>None\<close>). This agrees
  with the language on strings of decimal digits (below \<open>2^53\<close>, where numbers are exact)
  and on strings that begin with a letter other than \<^verbatim>\<open>I\<close>, which are never numbers.
  Signs, fractions, exponents, radix prefixes, \<^verbatim>\<open>Infinity\<close> and surrounding blanks,
  which the language also reads as numbers, are not modelled: an id is a letter followed
  by hexadecimal digits.
  \<^verbatim>\<open>sort\<close> treats a comparator result \<^verbatim>\<open>NaN\<close> as \<open>+0\<close> and is stable.
\<close>

definition is_digit :: "char \<Rightarrow> bool" where
  "is_digit ch = (ch \<in> set ''0123456789'')"

definition digit_value :: "char \<Rightarrow> int" where
  "digit_value ch = int (of_char ch) - 48"

definition to_number :: "string \<Rightarrow> int option" where
  "to_number s =
     (if list_all is_digit s then Some (foldl (\<lambda>n ch. 10 * n + digit_value ch) 0 s) else None)"

definition id_minus :: "string \<Rightarrow> string \<Rightarrow> int option" where
  "id_minus a b =
     (case to_number a of
        None \<Rightarrow> None
      | Some x \<Rightarrow> (case to_number b of None \<Rightarrow> None | Some y \<Rightarrow> Some (x - y)))"

definition sorts_after :: "int option \<Rightarrow> bool" where
  "sorts_after v = (case v of None \<Rightarrow> False | Some n \<Rightarrow> 0 < n)"

fun js_insert :: "('a \<Rightarrow> 'a \<Rightarrow> int option) \<Rightarrow> 'a \<Rightarrow> 'a list \<Rightarrow> 'a list" where
  "js_insert cmp x [] = [x]"
| "js_insert cmp x (y # ys) =
     (if sorts_after (cmp x y) then y # js_insert cmp x ys else x # y # ys)"

definition js_sort :: "('a \<Rightarrow> 'a \<Rightarrow> int option) \<Rightarrow> 'a list \<Rightarrow> 'a list" where
  "js_sort cmp xs = foldr (js_insert cmp) xs []"

text \<open>
  Two loops of the client compare their index with an array instead of its length
  (\<^verbatim>\<open>for (let i = 0, len = list; i < len; i++)\<close>). The comparison converts the array to
  a number through its text: the empty array prints as the empty string (0), and an array
  of objects prints as their \<^verbatim>\<open>toString\<close> texts joined by commas
  (\<^verbatim>\<open>[object Object]\<close>, \<^verbatim>\<open><LineContact id name>\<close>), which is no number.
\<close>

definition array_to_number :: "'a list \<Rightarrow> int option" where
  "array_to_number xs = (if xs = [] then Some 0 else None)"

definition lt_array :: "nat \<Rightarrow> 'a list \<Rightarrow> bool" where
  "lt_array i xs = (case array_to_number xs of None \<Rightarrow> False | Some n \<Rightarrow> int i < n)"

subsection \<open>Session operations\<close>

definition getLastOpRevision :: "client \<Rightarrow> int promise \<Rightarrow> int result" where
  "getLastOpRevision c got =
     (if checkAuth c then
        (case got of
           Resolved r \<Rightarrow>
             \<lparr>state = c\<lparr>revision := r\<rparr>, calls = [GetLastOpRevision], settled = Resolved r\<rparr>
         | Rejected err \<Rightarrow> \<lparr>state = c, calls = [GetLastOpRevision], settled = Rejected err\<rparr>
         | Pending \<Rightarrow> \<lparr>state = c, calls = [GetLastOpRevision], settled = Pending\<rparr>)
      else pleaseLogin c)"

definition getProfile :: "client \<Rightarrow> raw_contact promise \<Rightarrow> line_contact result" where
  "getProfile c got =
     (if checkAuth c then
        (case got of
           Resolved p \<Rightarrow>
             \<lparr>state = c\<lparr>profile := Some (LineContact p)\<rparr>, calls = [GetProfile],
              settled = Resolved (LineContact p)\<rparr>
         | Rejected err \<Rightarrow> \<lparr>state = c, calls = [GetProfile], settled = Rejected err\<rparr>
         | Pending \<Rightarrow> \<lparr>state = c, calls = [GetProfile], settled = Pending\<rparr>)
      else pleaseLogin c)"

subsection \<open>Directory refreshes\<close>

text \<open>\<^verbatim>\<open>.catch((err) => err)\<close> resolves the promise with the error as its value: the
  resolved value is \<open>Inl err\<close> then, and \<open>Inr\<close> the store otherwise. On the remote
  error of code 8 \<^verbatim>\<open>refreshContacts\<close> clears the token and the certificate (the alert
  it also raises is left out).\<close>

definition addGroupsWithIds ::
  "client \<Rightarrow> string list \<Rightarrow> bool \<Rightarrow> raw_group list promise \<Rightarrow> (error + line_group list) result"
where
  "addGroupsWithIds c groupIds isJoined got =
     (if checkAuth c then
        (case got of
           Resolved newGroups \<Rightarrow>
             (let newGroupsContext = map (\<lambda>g. LineGroup g isJoined) newGroups;
                  gs = js_sort (\<lambda>a b. id_minus (g_id a) (g_id b)) (groups c @ newGroupsContext)
              in \<lparr>state = c\<lparr>groups := gs\<rparr>, calls = [GetGroups groupIds],
                  settled = Resolved (Inr gs)\<rparr>)
         | Rejected err \<Rightarrow>
             \<lparr>state = c, calls = [GetGroups groupIds], settled = Resolved (Inl err)\<rparr>
         | Pending \<Rightarrow> \<lparr>state = c, calls = [GetGroups groupIds], settled = Pending\<rparr>)
      else pleaseLogin c)"

definition refreshContacts_catch ::
  "client \<Rightarrow> remote_call list \<Rightarrow> error \<Rightarrow> (error + line_contact list) result"
where
  "refreshContacts_catch c issued err =
     \<lparr>state = (case err of
                 TalkException code reason \<Rightarrow>
                   (if code = 8 then c\<lparr>authToken := None, certificate := None\<rparr> else c)
               | _ \<Rightarrow> c),
      calls = issued, settled = Resolved (Inl err)\<rparr>"

definition refreshContacts ::
  "client \<Rightarrow> string list promise \<Rightarrow> raw_contact list promise \<Rightarrow>
     (error + line_contact list) result"
where
  "refreshContacts c gotIds gotContacts =
     (if checkAuth c then
        (case gotIds of
           Pending \<Rightarrow> \<lparr>state = c, calls = [GetAllContactIds], settled = Pending\<rparr>
         | Rejected err \<Rightarrow> refreshContacts_catch c [GetAllContactIds] err
         | Resolved contactIds \<Rightarrow>
             (case gotContacts of
                Pending \<Rightarrow>
                  \<lparr>state = c, calls = [GetAllContactIds, GetContacts contactIds],
                   settled = Pending\<rparr>
              | Rejected err \<Rightarrow>
                  refreshContacts_catch c [GetAllContactIds, GetContacts contactIds] err
              | Resolved cs \<Rightarrow>
                  (let sorted_cs = js_sort (\<lambda>a b. id_minus (c_id a) (c_id b)) (map LineContact cs)
                   in \<lparr>state = c\<lparr>contacts := sorted_cs\<rparr>,
                       calls = [GetAllContactIds, GetContacts contactIds],
                       settled = Resolved (Inr sorted_cs)\<rparr>)))
      else pleaseLogin c)"

text \<open>
  \<^verbatim>\<open>refreshGroups\<close> starts the two id fetches and returns a promise already resolved
  with the group store as it is; each id list, when it arrives, is handed to
  \<open>addGroupsWithIds\<close> on the session as it is then.
\<close>

definition refreshGroups :: "client \<Rightarrow> line_group list result" where
  "refreshGroups c =
     (if checkAuth c then
        \<lparr>state = c, calls = [GetGroupIdsJoined, GetGroupIdsInvited], settled = Resolved (groups c)\<rparr>
      else pleaseLogin c)"

text \<open>
  \<^verbatim>\<open>refreshActiveRooms\<close>. The \<^verbatim>\<open>while (true)\<close> loop sets \<^verbatim>\<open>checkChannel = 0\<close>, starts
  the fetch of the page at \<open>start\<close>, registers the handlers that would write
  \<^verbatim>\<open>checkChannel\<close>, and then tests \<^verbatim>\<open>checkChannel === count\<close> at once, before any
  handler has run.
\<close>

function page_loop :: "nat \<Rightarrow> remote_call list \<Rightarrow> remote_call list" where
  "page_loop start issued =
     (let count = (50::nat);
          checkChannel = (0::nat);
          issued' = issued @ [GetMessageBoxCompactWrapUpList start count]
      in if checkChannel = count then page_loop (start + count) issued' else issued')"
  by pat_completeness auto

termination page_loop
  by (relation "{}") simp_all

definition refreshActiveRooms :: "client \<Rightarrow> line_room list result" where
  "refreshActiveRooms c =
     (if checkAuth c then
        \<lparr>state = c, calls = page_loop 1 [], settled = Resolved (rooms c)\<rparr>
      else pleaseLogin c)"

text \<open>
  The \<^verbatim>\<open>then\<close> handler of a page, run when the page arrives: the ids of the rooms it
  asks the remote for. Its loop bound \<^verbatim>\<open>len\<close> is the list of boxes itself. Reading a
  box beyond the end of the list would raise a \<open>TypeError\<close>.
\<close>

function scan_boxes :: "nat \<Rightarrow> message_box list \<Rightarrow> string list \<Rightarrow> error + string list" where
  "scan_boxes i boxes asked =
     (if lt_array i boxes then
        (if i < length boxes then
           scan_boxes (i + 1) boxes
             (if midType (boxes ! i) = ROOM then asked @ [box_id (boxes ! i)] else asked)
         else Inl TypeError)
      else Inr asked)"
  by pat_completeness auto

termination scan_boxes
  by (relation "{}") (simp_all add: lt_array_def array_to_number_def split: if_splits)

definition on_page :: "channel \<Rightarrow> error + string list" where
  "on_page ch =
     (case messageBoxWrapUpList ch of
        None \<Rightarrow> Inr []
      | Some boxes \<Rightarrow> scan_boxes 0 boxes [])"

text \<open>Each room that arrives is pushed onto the room store. \<open>rooms_settled\<close> is the
  session once the page answered by \<open>page\<close> and the rooms answered by \<open>getRoom\<close> have
  all been handled.\<close>

definition on_room :: "client \<Rightarrow> raw_room \<Rightarrow> client" where
  "on_room c room = c\<lparr>rooms := rooms c @ [LineRoom room]\<rparr>"

fun on_rooms :: "client \<Rightarrow> (string \<Rightarrow> raw_room promise) \<Rightarrow> string list \<Rightarrow> client" where
  "on_rooms c getRoom [] = c"
| "on_rooms c getRoom (i # asked) =
     (case getRoom i of
        Resolved room \<Rightarrow> on_rooms (on_room c room) getRoom asked
      | _ \<Rightarrow> on_rooms c getRoom asked)"

definition rooms_settled ::
  "client \<Rightarrow> channel promise \<Rightarrow> (string \<Rightarrow> raw_room promise) \<Rightarrow> client"
where
  "rooms_settled c page getRoom =
     (case page of
        Resolved ch \<Rightarrow>
          (case on_page ch of Inr asked \<Rightarrow> on_rooms c getRoom asked | Inl err \<Rightarrow> c)
      | _ \<Rightarrow> c)"

subsection \<open>Creating, inviting, leaving, sending\<close>

definition createGroupWithIds ::
  "client \<Rightarrow> string \<Rightarrow> string list \<Rightarrow> raw_group promise \<Rightarrow> line_group result"
where
  "createGroupWithIds c name ids got =
     (if checkAuth c then
        (case got of
           Resolved created \<Rightarrow>
             \<lparr>state = c\<lparr>groups := groups c @ [LineGroup created True]\<rparr>,
              calls = [CreateGroup name ids], settled = Resolved (LineGroup created True)\<rparr>
         | Rejected err \<Rightarrow> \<lparr>state = c, calls = [CreateGroup name ids], settled = Rejected err\<rparr>
         | Pending \<Rightarrow> \<lparr>state = c, calls = [CreateGroup name ids], settled = Pending\<rparr>)
      else pleaseLogin c)"

definition createGroupWithContacts ::
  "client \<Rightarrow> string \<Rightarrow> line_contact list \<Rightarrow> raw_group promise \<Rightarrow> line_group result"
where
  "createGroupWithContacts c name cs got =
     (if checkAuth c then
        (let contactIds = map c_id cs in
         case got of
           Resolved created \<Rightarrow>
             \<lparr>state = c\<lparr>groups := groups c @ [LineGroup created True]\<rparr>,
              calls = [CreateGroup name contactIds], settled = Resolved (LineGroup created True)\<rparr>
         | Rejected err \<Rightarrow>
             \<lparr>state = c, calls = [CreateGroup name contactIds], settled = Rejected err\<rparr>
         | Pending \<Rightarrow> \<lparr>state = c, calls = [CreateGroup name contactIds], settled = Pending\<rparr>)
      else pleaseLogin c)"

definition inviteIntoGroup ::
  "client \<Rightarrow> line_group \<Rightarrow> line_contact list \<Rightarrow> 'a promise \<Rightarrow> 'a result"
where
  "inviteIntoGroup c grp cs got =
     (if checkAuth c then
        \<lparr>state = c, calls = [InviteIntoGroup (g_id grp) (map c_id cs)], settled = got\<rparr>
      else pleaseLogin c)"

definition acceptGroupInvitation :: "client \<Rightarrow> line_group \<Rightarrow> 'a promise \<Rightarrow> 'a result" where
  "acceptGroupInvitation c grp got =
     (if checkAuth c then
        \<lparr>state = c, calls = [AcceptGroupInvitation (g_id grp)], settled = got\<rparr>
      else pleaseLogin c)"

text \<open>
  \<^verbatim>\<open>_leaveGroup(group.id).then(() => {filter; return true}, () => false)\<close>: the second
  handler turns a rejection into the value \<^verbatim>\<open>false\<close>.
\<close>

definition leaveGroup :: "client \<Rightarrow> line_group \<Rightarrow> unit promise \<Rightarrow> bool result" where
  "leaveGroup c grp left =
     (if checkAuth c then
        (case left of
           Resolved _ \<Rightarrow>
             \<lparr>state = c\<lparr>groups := filter (\<lambda>gp. g_id gp \<noteq> g_id grp) (groups c)\<rparr>,
              calls = [LeaveGroup (g_id grp)], settled = Resolved True\<rparr>
         | Rejected _ \<Rightarrow>
             \<lparr>state = c, calls = [LeaveGroup (g_id grp)], settled = Resolved False\<rparr>
         | Pending \<Rightarrow> \<lparr>state = c, calls = [LeaveGroup (g_id grp)], settled = Pending\<rparr>)
      else pleaseLogin c)"

definition createRoomWithIds :: "client \<Rightarrow> string list \<Rightarrow> raw_room promise \<Rightarrow> line_room result" where
  "createRoomWithIds c ids got =
     (if checkAuth c then
        (case got of
           Resolved created \<Rightarrow>
             \<lparr>state = c\<lparr>rooms := rooms c @ [LineRoom created]\<rparr>,
              calls = [CreateRoom ids], settled = Resolved (LineRoom created)\<rparr>
         | Rejected err \<Rightarrow> \<lparr>state = c, calls = [CreateRoom ids], settled = Rejected err\<rparr>
         | Pending \<Rightarrow> \<lparr>state = c, calls = [CreateRoom ids], settled = Pending\<rparr>)
      else pleaseLogin c)"

text \<open>In \<^verbatim>\<open>createRoomWithContacts\<close> and \<^verbatim>\<open>inviteIntoRoom\<close> the loop over the contacts
  pushes onto \<^verbatim>\<open>contacts\<close>, not onto \<^verbatim>\<open>contactIds\<close>: the remote is called with the
  empty id list.\<close>

definition createRoomWithContacts ::
  "client \<Rightarrow> line_contact list \<Rightarrow> raw_room promise \<Rightarrow> line_room result"
where
  "createRoomWithContacts c cs got =
     (if checkAuth c then
        (let contactIds = [] in
         case got of
           Resolved created \<Rightarrow>
             \<lparr>state = c\<lparr>rooms := rooms c @ [LineRoom created]\<rparr>,
              calls = [CreateRoom contactIds], settled = Resolved (LineRoom created)\<rparr>
         | Rejected err \<Rightarrow> \<lparr>state = c, calls = [CreateRoom contactIds], settled = Rejected err\<rparr>
         | Pending \<Rightarrow> \<lparr>state = c, calls = [CreateRoom contactIds], settled = Pending\<rparr>)
      else pleaseLogin c)"

definition inviteIntoRoom ::
  "client \<Rightarrow> line_room \<Rightarrow> line_contact list \<Rightarrow> 'a promise \<Rightarrow> 'a result"
where
  "inviteIntoRoom c room cs got =
     (if checkAuth c then
        (let contactIds = [] in
         \<lparr>state = c, calls = [InviteIntoRoom (r_id room) contactIds], settled = got\<rparr>)
      else pleaseLogin c)"

definition leaveRoom :: "client \<Rightarrow> line_room \<Rightarrow> unit promise \<Rightarrow> bool result" where
  "leaveRoom c room left =
     (if checkAuth c then
        (case left of
           Resolved _ \<Rightarrow>
             \<lparr>state = c\<lparr>rooms := filter (\<lambda>rm. r_id rm \<noteq> r_id room) (rooms c)\<rparr>,
              calls = [LeaveRoom (r_id room)], settled = Resolved True\<rparr>
         | Rejected _ \<Rightarrow>
             \<lparr>state = c, calls = [LeaveRoom (r_id room)], settled = Resolved False\<rparr>
         | Pending \<Rightarrow> \<lparr>state = c, calls = [LeaveRoom (r_id room)], settled = Pending\<rparr>)
      else pleaseLogin c)"

definition sendMessage :: "client \<Rightarrow> raw_message \<Rightarrow> int \<Rightarrow> 'a promise \<Rightarrow> 'a result" where
  "sendMessage c message seq got =
     (if checkAuth c then
        \<lparr>state = c, calls = [SendMessage message seq], settled = got\<rparr>
      else pleaseLogin c)"

subsection \<open>Messages\<close>

text \<open>A \<^verbatim>\<open>LineMessage\<close> resolves its sender and receiver against the directory when it
  is built. (The content preview and metadata, which it copies, are left out.)\<close>

record line_message =
  lm_id :: string
  lm_text :: string
  lm_hasContent :: bool
  lm_contentType :: int
  lm_sender :: js_value
  lm_receiver :: js_value
  lm_toType :: mid_type
  lm_createdTime :: int

definition LineMessage :: "client \<Rightarrow> raw_message \<Rightarrow> line_message" where
  "LineMessage c message =
     \<lparr>lm_id = m_id message, lm_text = m_text message,
      lm_hasContent = m_hasContent message, lm_contentType = m_contentType message,
      lm_sender = getContactOrRoomOrGroupById c (u_from message),
      lm_receiver = getContactOrRoomOrGroupById c (m_to message),
      lm_toType = m_toType message, lm_createdTime = m_createdTime message\<rparr>"

definition getRecentMessages ::
  "client \<Rightarrow> string \<Rightarrow> nat \<Rightarrow> raw_message list promise \<Rightarrow> line_message list result"
where
  "getRecentMessages c messageBoxId count got =
     (if checkAuth c then
        (case got of
           Resolved messages \<Rightarrow>
             \<lparr>state = c, calls = [GetRecentMessages messageBoxId count],
              settled = Resolved (map (LineMessage c) messages)\<rparr>
         | Rejected err \<Rightarrow>
             \<lparr>state = c, calls = [GetRecentMessages messageBoxId count], settled = Rejected err\<rparr>
         | Pending \<Rightarrow>
             \<lparr>state = c, calls = [GetRecentMessages messageBoxId count], settled = Pending\<rparr>)
      else pleaseLogin c)"

subsection \<open>Membership and the computed views of a contact (models.js)\<close>

text \<open>
  \<^verbatim>\<open>_containId(id)\<close> is \<^verbatim>\<open>Array.isArray(this.members) && this.members.indexOf(id) >= 0\<close>.
  The member list is always an array, of \<^verbatim>\<open>LineContact\<close> objects, and \<^verbatim>\<open>indexOf\<close>
  compares each element with the id by strict equality. The id is a string, as the
  documentation of the method says and as the two getters below pass it.
\<close>

fun indexOf :: "js_value list \<Rightarrow> string \<Rightarrow> int" where
  "indexOf [] s = - 1"
| "indexOf (x # xs) s =
     (if equals_string x s then 0
      else (let k = indexOf xs s in if k < 0 then - 1 else k + 1))"

definition group_containId :: "line_group \<Rightarrow> string \<Rightarrow> bool" where
  "group_containId g i = (0 \<le> indexOf (map VContact (g_members g)) i)"

definition room_containId :: "line_room \<Rightarrow> string \<Rightarrow> bool" where
  "room_containId r i = (0 \<le> indexOf (map VContact (r_contacts r)) i)"

text \<open>The getters \<^verbatim>\<open>rooms\<close> (a \<^verbatim>\<open>filter\<close>) and \<^verbatim>\<open>groups\<close> (a \<^verbatim>\<open>map\<close>) of a
  contact, over the stores of its client.\<close>

definition contact_rooms :: "client \<Rightarrow> line_contact \<Rightarrow> line_room list" where
  "contact_rooms cl this = filter (\<lambda>room. room_containId room (c_id this)) (rooms cl)"

definition contact_groups :: "client \<Rightarrow> line_contact \<Rightarrow> bool list" where
  "contact_groups cl this = map (\<lambda>grp. group_containId grp (c_id this)) (groups cl)"

section \<open>The long-poll dispatcher\<close>

text \<open>
  \<^verbatim>\<open>longPoll\<close> is a generator run as a coroutine: it yields the fetch promise and is
  resumed with the operations (or has the rejection thrown into it), then yields the
  triple of sender, receiver and message and, resumed, advances the revision and returns.
  One run is one poll cycle. Its outcome is the event (the yielded triple with the revision
  returned after it), the raw operation returned for any other kind, nothing
  (\<^verbatim>\<open>undefined\<close>), or the error thrown to the driver; \<open>Waiting\<close> is the cycle whose fetch
  has not been answered. What the cycle writes to the console is its log.
\<close>

datatype log_entry = ConsoleError error | ConsoleLog op_type

datatype poll_outcome =
    Event js_value js_value line_message int
  | RawOperation operation
  | Finished
  | Thrown error
  | Waiting

record poll_result =
  p_state :: client
  p_calls :: "remote_call list"
  p_log :: "log_entry list"
  p_outcome :: poll_outcome

definition longPoll_catch :: "client \<Rightarrow> remote_call list \<Rightarrow> error \<Rightarrow> poll_result" where
  "longPoll_catch c issued err =
     \<lparr>p_state = c, p_calls = issued, p_log = [ConsoleError err],
      p_outcome =
        (case err of
           TalkException code reason \<Rightarrow>
             (if code = 9 then Thrown (Error ''user logged in on another machine'') else Finished)
         | _ \<Rightarrow> Finished)\<rparr>"

text \<open>
  The fallback scan \<^verbatim>\<open>for (let j = 0, memLen = receiver.members; j < memLen; j++)\<close>:
  \<open>memLen\<close> is the member list itself (\<^verbatim>\<open>undefined\<close> for a contact or a room, which
  have no \<^verbatim>\<open>members\<close>), and a match assigns the member's id to \<^verbatim>\<open>sender\<close>.
\<close>

fun members_of :: "js_value \<Rightarrow> line_contact list option" where
  "members_of (VGroup g) = Some (g_members g)"
| "members_of _ = None"

function fallback_scan ::
  "nat \<Rightarrow> line_contact list option \<Rightarrow> string \<Rightarrow> js_value \<Rightarrow> error + js_value"
where
  "fallback_scan j memLen rawSender sender =
     (case memLen of
        None \<Rightarrow> Inr sender
      | Some ms \<Rightarrow>
          (if lt_array j ms then
             (if j < length ms then
                fallback_scan (j + 1) memLen rawSender
                  (if c_id (ms ! j) = rawSender then VString (c_id (ms ! j)) else sender)
              else Inl TypeError)
           else Inr sender))"
  by pat_completeness auto

termination fallback_scan
  by (relation "{}") (simp_all add: lt_array_def array_to_number_def split: if_splits)

text \<open>
  The body of the case for \<^verbatim>\<open>END_OF_OPERATION\<close>, \<^verbatim>\<open>SEND_MESSAGE\<close> and
  \<^verbatim>\<open>RECEIVE_MESSAGE\<close>. The three refreshes of the repair are called without waiting for
  their promises: each runs as far as its first remote call, and the two ids are looked
  up again in the session as the three calls leave it.
\<close>

definition on_message ::
  "client \<Rightarrow> remote_call list \<Rightarrow> operation \<Rightarrow> poll_result"
where
  "on_message c issued operation =
     (case omessage operation of
        None \<Rightarrow> longPoll_catch c issued TypeError
      | Some raw \<Rightarrow>
          (let message = LineMessage c raw;
               rawSender = from_u raw;
               rawReceiver = m_to raw;
               sender = getContactOrRoomOrGroupById c rawSender;
               receiver = getContactOrRoomOrGroupById c rawReceiver
           in case (if \<not> truthy sender \<and> equals_class (js_typeof receiver) ''LineGroup''
                    then fallback_scan 0 (members_of receiver) rawSender sender
                    else Inr sender) of
                Inl err \<Rightarrow> longPoll_catch c issued err
              | Inr sender1 \<Rightarrow>
                  (if \<not> truthy sender1 \<or> \<not> truthy receiver then
                     (let g = refreshGroups c;
                          k = refreshContacts (state g) Pending Pending;
                          r = refreshActiveRooms (state k);
                          c' = state r;
                          sender2 = getContactOrRoomOrGroupById c' rawSender;
                          receiver2 = getContactOrRoomOrGroupById c' rawReceiver;
                          newRevision = max (orevision operation) (revision c')
                      in \<lparr>p_state = c'\<lparr>revision := newRevision\<rparr>,
                          p_calls = issued @ calls g @ calls k @ calls r, p_log = [],
                          p_outcome = Event sender2 receiver2 message newRevision\<rparr>)
                   else
                     (let newRevision = max (orevision operation) (revision c)
                      in \<lparr>p_state = c\<lparr>revision := newRevision\<rparr>, p_calls = issued, p_log = [],
                          p_outcome = Event sender1 receiver message newRevision\<rparr>))))"

text \<open>
  One cycle. \<^verbatim>\<open>!operations\<close> holds of \<^verbatim>\<open>null\<close> and \<^verbatim>\<open>undefined\<close> (\<open>None\<close>), not of
  an array. Both branches of the \<^verbatim>\<open>switch\<close> return, so the \<^verbatim>\<open>for\<close> loop never
  reaches a second operation. Without a token the body is skipped and the generator
  returns nothing.
\<close>

definition longPoll :: "client \<Rightarrow> nat \<Rightarrow> operation list option promise \<Rightarrow> poll_result" where
  "longPoll c count fetched =
     (if checkAuth c then
        (let issued = [FetchOperations (revision c) count] in
         case fetched of
           Pending \<Rightarrow> \<lparr>p_state = c, p_calls = issued, p_log = [], p_outcome = Waiting\<rparr>
         | Rejected err \<Rightarrow> longPoll_catch c issued err
         | Resolved None \<Rightarrow> longPoll_catch c issued (Error ''No Operation.'')
         | Resolved (Some []) \<Rightarrow>
             \<lparr>p_state = c, p_calls = issued, p_log = [], p_outcome = Finished\<rparr>
         | Resolved (Some (operation # _)) \<Rightarrow>
             (case otype operation of
                OtherOpType n \<Rightarrow>
                  \<lparr>p_state = c, p_calls = issued, p_log = [ConsoleLog (otype operation)],
                   p_outcome = RawOperation operation\<rparr>
              | _ \<Rightarrow> on_message c issued operation))
      else \<lparr>p_state = c, p_calls = [], p_log = [], p_outcome = Finished\<rparr>)"

text \<open>
  A run of cycles. Between two cycles the handlers of earlier refreshes and other calls
  of the driver may have changed the token, the certificate and the stores; only the
  dispatcher writes the revision once login has set it. So each cycle is given the session
  \<open>d\<close> it finds, with the revision the cycle before it left, and the answer to its fetch.
\<close>

fun poll_cycles :: "client \<Rightarrow> (client \<times> operation list option promise) list \<Rightarrow> client" where
  "poll_cycles c [] = c"
| "poll_cycles c ((d, fetched) # rest) =
     poll_cycles (p_state (longPoll (d\<lparr>revision := revision c\<rparr>) 50 fetched)) rest"

text \<open>The revision of the operation a cycle processes, if it processes one: the session
  holds a token and the first operation fetched is of a messaging kind and carries its
  message.\<close>

definition message_bearing :: "operation \<Rightarrow> bool" where
  "message_bearing operation =
     (otype operation \<in> {END_OF_OPERATION, SEND_MESSAGE, RECEIVE_MESSAGE}
      \<and> omessage operation \<noteq> None)"

definition processed :: "client \<Rightarrow> operation list option promise \<Rightarrow> int option" where
  "processed d fetched =
     (case fetched of
        Resolved (Some (operation # _)) \<Rightarrow>
          (if checkAuth d \<and> message_bearing operation then Some (orevision operation) else None)
      | _ \<Rightarrow> None)"

text \<open>A remote error "coded as concurrent session": a \<^verbatim>\<open>TalkException\<close> with code 9.\<close>

definition concurrent_session :: "error \<Rightarrow> bool" where
  "concurrent_session err = (case err of TalkException code reason \<Rightarrow> code = 9 | _ \<Rightarrow> False)"

section \<open>Example values\<close>

definition ex_session :: client where
  "ex_session = \<lparr>authToken = Some ''token'', certificate = None, revision = 100,
     profile = None, contacts = [], rooms = [], groups = []\<rparr>"

definition ex_raw :: "string \<Rightarrow> raw_contact" where
  "ex_raw i = \<lparr>mid = i, displayName = ''Ann'', picturePath = ''/a'', statusMessage = ''hi''\<rparr>"

definition ex_ann :: line_contact where
  "ex_ann = \<lparr>c_id = ''u1'', c_name = ''Ann'', c_picturePath = ''/a'', c_statusMessage = ''hi''\<rparr>"

definition ex_team :: line_group where
  "ex_team = \<lparr>g_id = ''g1'', g_name = ''Team'', g_creator = None, g_invitee = [],
     g_members = [ex_ann], g_isJoined = True\<rparr>"

definition ex_club :: line_group where
  "ex_club = \<lparr>g_id = ''g2'', g_name = ''Club'', g_creator = None, g_invitee = [],
     g_members = [], g_isJoined = True\<rparr>"

definition ex_den :: line_room where
  "ex_den = \<lparr>r_id = ''r1'', r_contacts = [ex_ann]\<rparr>"

definition ex_hello :: "string \<Rightarrow> raw_message" where
  "ex_hello receiver = \<lparr>m_id = ''m1'', m_text = ''hello'', m_hasContent = False,
     m_contentType = 0, from_u = ''u1'', u_from = ''u1'', m_to = receiver, m_toType = GROUP,
     m_createdTime = 0\<rparr>"

definition ex_received :: "int \<Rightarrow> string \<Rightarrow> operation" where
  "ex_received r receiver =
     \<lparr>otype = RECEIVE_MESSAGE, orevision = r, omessage = Some (ex_hello receiver)\<rparr>"

definition ex_room_box :: message_box where
  "ex_room_box = \<lparr>box_id = ''r1'', midType = ROOM\<rparr>"

section \<open>Lemmas about the loops, the lookups and one cycle\<close>

declare page_loop.simps [simp del] scan_boxes.simps [simp del] fallback_scan.simps [simp del]

lemma lt_array_never: "lt_array i xs = False"
  by (simp add: lt_array_def array_to_number_def)

lemma page_loop_once: "page_loop start issued = issued @ [GetMessageBoxCompactWrapUpList start 50]"
  by (subst page_loop.simps) simp

lemma scan_boxes_none: "scan_boxes i boxes asked = Inr asked"
  by (subst scan_boxes.simps) (simp add: lt_array_never)

lemma on_page_none: "on_page ch = Inr []"
  by (simp add: on_page_def scan_boxes_none split: option.split)

lemma rooms_settled_same: "rooms_settled c page getRoom = c"
  by (simp add: rooms_settled_def on_page_none split: promise.split)

lemma equals_class_typeof: "equals_class (js_typeof v) cls = False"
  by (cases v) simp_all

lemma getContactById_cases:
  "getContactById xs i = VUndefined
   \<or> (\<exists>x \<in> set xs. getContactById xs i = VContact x \<and> c_id x = i)"
  by (induction xs) auto

lemma getRoomById_cases:
  "getRoomById xs i = VUndefined \<or> (\<exists>x \<in> set xs. getRoomById xs i = VRoom x \<and> r_id x = i)"
  by (induction xs) auto

lemma getGroupById_cases:
  "getGroupById xs i = VUndefined \<or> (\<exists>x \<in> set xs. getGroupById xs i = VGroup x \<and> g_id x = i)"
  by (induction xs) auto

lemma truthy_lookup:
  "truthy (getContactOrRoomOrGroupById c i) = (getContactOrRoomOrGroupById c i \<noteq> VUndefined)"
  using getContactById_cases [of "contacts c" i] getRoomById_cases [of "rooms c" i]
    getGroupById_cases [of "groups c" i]
  by (auto simp: getContactOrRoomOrGroupById_def js_or_def)

lemma state_refreshGroups: "state (refreshGroups c) = c"
  by (simp add: refreshGroups_def pleaseLogin_def)

lemma state_refreshContacts_pending: "state (refreshContacts c Pending p) = c"
  by (simp add: refreshContacts_def pleaseLogin_def)

lemma state_refreshActiveRooms: "state (refreshActiveRooms c) = c"
  by (simp add: refreshActiveRooms_def pleaseLogin_def)

text \<open>A cycle that reaches an operation of a messaging kind with its message: the
  fallback is skipped, and a repair leaves the session as it was when the ids are looked
  up again.\<close>

lemma on_message_event:
  assumes "checkAuth c" and "omessage operation = Some raw"
  shows "on_message c issued operation =
     \<lparr>p_state = c\<lparr>revision := max (orevision operation) (revision c)\<rparr>,
      p_calls = issued @
        (if getContactOrRoomOrGroupById c (from_u raw) = VUndefined
            \<or> getContactOrRoomOrGroupById c (m_to raw) = VUndefined
         then [GetGroupIdsJoined, GetGroupIdsInvited, GetAllContactIds,
               GetMessageBoxCompactWrapUpList 1 50] else []),
      p_log = [],
      p_outcome = Event (getContactOrRoomOrGroupById c (from_u raw))
        (getContactOrRoomOrGroupById c (m_to raw)) (LineMessage c raw)
        (max (orevision operation) (revision c))\<rparr>"
  using assms
  by (simp add: on_message_def Let_def equals_class_typeof truthy_lookup
      state_refreshGroups state_refreshContacts_pending state_refreshActiveRooms
      refreshGroups_def refreshContacts_def refreshActiveRooms_def page_loop_once)

lemma longPoll_message:
  assumes "checkAuth c"
    and "otype operation \<in> {END_OF_OPERATION, SEND_MESSAGE, RECEIVE_MESSAGE}"
  shows "longPoll c n (Resolved (Some (operation # rest))) =
     on_message c [FetchOperations (revision c) n] operation"
  using assms by (auto simp: longPoll_def)

lemma checkAuth_revision [simp]: "checkAuth (d\<lparr>revision := x\<rparr>) = checkAuth d"
  by (simp add: checkAuth_def)

lemma processed_revision [simp]: "processed (d\<lparr>revision := x\<rparr>) fetched = processed d fetched"
  by (simp add: processed_def split: promise.split option.split list.split)

lemma longPoll_revision:
  "revision (p_state (longPoll c n fetched)) =
     (case processed c fetched of Some r \<Rightarrow> max (revision c) r | None \<Rightarrow> revision c)"
proof (cases "checkAuth c")
  case False
  then show ?thesis
    by (simp add: longPoll_def processed_def split: promise.split option.split list.split)
next
  case auth: True
  show ?thesis
  proof (cases fetched)
    case Pending
    then show ?thesis by (simp add: longPoll_def processed_def auth)
  next
    case (Rejected err)
    then show ?thesis by (simp add: longPoll_def processed_def auth longPoll_catch_def)
  next
    case (Resolved got)
    show ?thesis
    proof (cases got)
      case None
      with Resolved show ?thesis by (simp add: longPoll_def processed_def auth longPoll_catch_def)
    next
      case (Some operations)
      show ?thesis
      proof (cases operations)
        case Nil
        with Resolved Some show ?thesis by (simp add: longPoll_def processed_def auth)
      next
        case (Cons operation rest)
        show ?thesis
        proof (cases "omessage operation")
          case None
          with Resolved Some Cons auth show ?thesis
            by (simp add: longPoll_def processed_def message_bearing_def on_message_def
                longPoll_catch_def Let_def split: op_type.split)
        next
          case (Some raw)
          with Resolved \<open>got = Some operations\<close> Cons auth show ?thesis
            by (simp add: longPoll_def processed_def message_bearing_def on_message_event
                max.commute Let_def split: op_type.split)
        qed
      qed
    qed
  qed
qed

text \<open>The cycles that process an operation are those that end in an event.\<close>

lemma processed_iff_event:
  "(processed c fetched \<noteq> None) =
     (\<exists>s r m v. p_outcome (longPoll c n fetched) = Event s r m v)"
proof (cases "checkAuth c")
  case False
  then show ?thesis
    by (simp add: longPoll_def processed_def split: promise.split option.split list.split)
next
  case auth: True
  show ?thesis
  proof (cases fetched)
    case Pending
    then show ?thesis by (simp add: longPoll_def processed_def auth)
  next
    case (Rejected err)
    then show ?thesis
      by (simp add: longPoll_def processed_def auth longPoll_catch_def split: error.split)
  next
    case (Resolved got)
    show ?thesis
    proof (cases got)
      case None
      with Resolved show ?thesis by (simp add: longPoll_def processed_def auth longPoll_catch_def)
    next
      case (Some operations)
      show ?thesis
      proof (cases operations)
        case Nil
        with Resolved Some show ?thesis by (simp add: longPoll_def processed_def auth)
      next
        case (Cons operation rest)
        show ?thesis
        proof (cases "omessage operation")
          case None
          with Resolved Some Cons auth show ?thesis
            by (simp add: longPoll_def processed_def message_bearing_def on_message_def
                longPoll_catch_def Let_def split: op_type.split)
        next
          case (Some raw)
          with Resolved \<open>got = Some operations\<close> Cons auth show ?thesis
            by (simp add: longPoll_def processed_def message_bearing_def on_message_event
                Let_def split: op_type.split)
        qed
      qed
    qed
  qed
qed

lemma foldl_max_ge: "(a::int) \<le> foldl max a rs"
proof (induction rs arbitrary: a)
  case Nil
  show ?case by simp
next
  case (Cons r rs)
  have "a \<le> max a r" by simp
  also have "\<dots> \<le> foldl max (max a r) rs" by (rule Cons.IH)
  finally show ?case by simp
qed

lemma poll_cycles_revision:
  "revision (poll_cycles c cycles) =
     foldl max (revision c) (List.map_filter (\<lambda>(d, fetched). processed d fetched) cycles)"
proof (induction cycles arbitrary: c)
  case Nil
  show ?case by (simp add: List.map_filter_simps)
next
  case (Cons cyc cycles)
  obtain d fetched where cyc: "cyc = (d, fetched)" by (cases cyc)
  show ?case
    by (simp add: cyc Cons.IH longPoll_revision List.map_filter_simps split: option.split)
qed

text \<open>A comparator that never answers "after" leaves the array as it is.\<close>

lemma js_sort_unordered:
  "(\<And>x y. x \<in> set xs \<Longrightarrow> y \<in> set xs \<Longrightarrow> \<not> sorts_after (cmp x y)) \<Longrightarrow> js_sort cmp xs = xs"
proof (induction xs)
  case Nil
  show ?case by (simp add: js_sort_def)
next
  case (Cons x xs)
  have rest: "js_sort cmp xs = xs"
    by (rule Cons.IH) (simp_all add: Cons.prems)
  have "js_sort cmp (x # xs) = js_insert cmp x (js_sort cmp xs)"
    by (simp add: js_sort_def)
  also have "\<dots> = js_insert cmp x xs" by (simp add: rest)
  also have "\<dots> = x # xs"
  proof (cases xs)
    case Nil
    then show ?thesis by simp
  next
    case (Cons y ys)
    then have "\<not> sorts_after (cmp x y)" using Cons.prems by simp
    with Cons show ?thesis by simp
  qed
  finally show ?case .
qed

lemma indexOf_contacts: "indexOf (map VContact ms) i = - 1"
  by (induction ms) simp_all

lemma ex_session_auth: "checkAuth ex_session"
  by (simp add: checkAuth_def ex_session_def)

lemma ex_session_revision: "revision ex_session = 100"
  by (simp add: ex_session_def)

section \<open>The claims\<close>

text \<open>
  C1. A poll cycle that processes an operation of a messaging kind carrying its message,
  with revision \<open>r\<close>, leaves the session revision at the maximum of the revision before
  the cycle and \<open>r\<close>. Over any run of cycles the revision is the running maximum of the
  starting revision and the revisions of the operations processed (a cycle that processes
  none leaves it alone), and it never decreases.
\<close>

theorem revision_running_maximum:
  "(checkAuth c \<and> otype operation \<in> {END_OF_OPERATION, SEND_MESSAGE, RECEIVE_MESSAGE}
      \<and> omessage operation = Some raw \<longrightarrow>
      revision (p_state (longPoll c n (Resolved (Some (operation # rest))))) =
        max (revision c) (orevision operation))
   \<and> revision (poll_cycles c cycles) =
       foldl max (revision c) (List.map_filter (\<lambda>(d, fetched). processed d fetched) cycles)
   \<and> revision c \<le> revision (poll_cycles c cycles)"
  by (simp add: longPoll_revision poll_cycles_revision foldl_max_ge processed_def
      message_bearing_def)

theorem revision_running_maximum_witness:
  "revision (p_state (longPoll ex_session 50 (Resolved (Some [ex_received 105 ''g1''])))) = 105
   \<and> revision (poll_cycles ex_session
        [(ex_session, Resolved (Some [ex_received 105 ''g1''])),
         (ex_session, Resolved (Some [ex_received 103 ''g1''])),
         (ex_session, Resolved (Some [])),
         (ex_session, Resolved (Some [ex_received 110 ''g1'']))]) = 110"
proof -
  have op: "\<And>r. processed ex_session (Resolved (Some [ex_received r ''g1''])) = Some r"
    by (simp add: processed_def ex_session_auth message_bearing_def ex_received_def)
  have none: "processed ex_session (Resolved (Some [])) = None"
    by (simp add: processed_def)
  have kind: "otype (ex_received 105 ''g1'') = RECEIVE_MESSAGE"
    and msg: "omessage (ex_received 105 ''g1'') = Some (ex_hello ''g1'')"
    and rev: "orevision (ex_received 105 ''g1'') = 105"
    by (simp_all add: ex_received_def)
  show ?thesis
    using revision_running_maximum [of ex_session "ex_received 105 ''g1''" "ex_hello ''g1''"
        50 "[]"
        "[(ex_session, Resolved (Some [ex_received 105 ''g1''])),
          (ex_session, Resolved (Some [ex_received 103 ''g1''])),
          (ex_session, Resolved (Some [])),
          (ex_session, Resolved (Some [ex_received 110 ''g1'']))]"]
    by (simp add: op none kind msg rev ex_session_auth ex_session_revision
        List.map_filter_simps del: poll_cycles.simps)
qed

text \<open>
  C2. The claim: for an operation of a messaging kind whose sender id is absent from the
  directory but whose receiver id resolves to a group, if a member of that group has the
  sender's id, the emitted triple has that member as its sender. The code: the test
  \<^verbatim>\<open>typeof receiver === LineGroup\<close> compares a string with a class and is never true,
  so the scan of the members is never entered and the emitted sender is \<^verbatim>\<open>undefined\<close>.
\<close>

theorem group_member_fallback_never_runs:
  assumes "checkAuth c"
    and "otype operation \<in> {END_OF_OPERATION, SEND_MESSAGE, RECEIVE_MESSAGE}"
    and "omessage operation = Some raw"
    and "getContactOrRoomOrGroupById c (from_u raw) = VUndefined"
    and "getContactOrRoomOrGroupById c (m_to raw) = VGroup g"
    and "member \<in> set (g_members g)" and "c_id member = from_u raw"
  shows "p_outcome (longPoll c n (Resolved (Some (operation # rest)))) =
           Event VUndefined (VGroup g) (LineMessage c raw)
             (max (orevision operation) (revision c))"
  using assms by (simp add: longPoll_message on_message_event)

theorem group_member_fallback_never_runs_witness:
  "p_outcome (longPoll (ex_session\<lparr>groups := [ex_team]\<rparr>) 50
      (Resolved (Some [ex_received 105 ''g1'']))) =
     Event VUndefined (VGroup ex_team)
       (LineMessage (ex_session\<lparr>groups := [ex_team]\<rparr>) (ex_hello ''g1'')) 105"
  using group_member_fallback_never_runs [of "ex_session\<lparr>groups := [ex_team]\<rparr>"
      "ex_received 105 ''g1''" "ex_hello ''g1''" ex_team ex_ann 50 "[]"]
  by (simp add: checkAuth_def ex_session_def ex_received_def ex_hello_def ex_team_def
      ex_ann_def getContactOrRoomOrGroupById_def js_or_def)



text \<open>
  C4. The claim: after \<^verbatim>\<open>refreshContacts\<close> the contact store consists of the contacts
  built from the records returned, replacing the previous store, in ascending id order.
  The code: the store is replaced by those contacts, but the comparator subtracts the ids;
  for ids that are not numbers the difference is \<^verbatim>\<open>NaN\<close>, and the store keeps the order
  in which the remote returned the records.
\<close>

theorem refreshContacts_keeps_remote_order:
  assumes "checkAuth c" and "\<forall>r \<in> set raws. to_number (mid r) = None"
  shows "refreshContacts c (Resolved ids) (Resolved raws) =
           \<lparr>state = c\<lparr>contacts := map LineContact raws\<rparr>,
            calls = [GetAllContactIds, GetContacts ids],
            settled = Resolved (Inr (map LineContact raws))\<rparr>"
proof -
  have "js_sort (\<lambda>a b. id_minus (c_id a) (c_id b)) (map LineContact raws) = map LineContact raws"
  proof (rule js_sort_unordered)
    fix x y
    assume "x \<in> set (map LineContact raws)" and "y \<in> set (map LineContact raws)"
    then have "to_number (c_id x) = None"
      using assms(2) by (auto simp: LineContact_def)
    then show "\<not> sorts_after (id_minus (c_id x) (c_id y))"
      by (simp add: id_minus_def sorts_after_def)
  qed
  then show ?thesis
    using assms(1) by (simp add: refreshContacts_def Let_def)
qed

theorem refreshContacts_keeps_remote_order_witness:
  "map c_id (contacts (state (refreshContacts ex_session (Resolved [''c3'', ''c1'', ''c2''])
      (Resolved [ex_raw ''c3'', ex_raw ''c1'', ex_raw ''c2''])))) = [''c3'', ''c1'', ''c2'']"
  using refreshContacts_keeps_remote_order [of ex_session
      "[ex_raw ''c3'', ex_raw ''c1'', ex_raw ''c2'']" "[''c3'', ''c1'', ''c2'']"]
  by (simp add: checkAuth_def ex_session_def ex_raw_def to_number_def is_digit_def
      LineContact_def)

text \<open>
  C5. The claim: every gated operation, \<^verbatim>\<open>longPoll\<close> among them, fails at once with an
  auth-required error and makes no remote call when no token is held. The code: without
  a token \<^verbatim>\<open>longPoll\<close> makes no remote call but raises nothing, it ends with
  \<^verbatim>\<open>undefined\<close>; every other gated operation returns a promise rejected with
  \<^verbatim>\<open>Please Login first\<close>, having made no remote call.
\<close>

theorem longPoll_without_token_is_silent:
  assumes "\<not> checkAuth c"
  shows "longPoll c n fetched = \<lparr>p_state = c, p_calls = [], p_log = [], p_outcome = Finished\<rparr>
       \<and> getLastOpRevision c p1 = pleaseLogin c
       \<and> getProfile c p2 = pleaseLogin c
       \<and> addGroupsWithIds c ids isJoined p3 = pleaseLogin c
       \<and> refreshContacts c p4 p5 = pleaseLogin c
       \<and> refreshGroups c = pleaseLogin c
       \<and> refreshActiveRooms c = pleaseLogin c
       \<and> createGroupWithIds c name ids p6 = pleaseLogin c
       \<and> createGroupWithContacts c name cs p6 = pleaseLogin c
       \<and> inviteIntoGroup c g cs p7 = pleaseLogin c
       \<and> acceptGroupInvitation c g p8 = pleaseLogin c
       \<and> leaveGroup c g p9 = pleaseLogin c
       \<and> createRoomWithIds c ids p10 = pleaseLogin c
       \<and> createRoomWithContacts c cs p10 = pleaseLogin c
       \<and> inviteIntoRoom c r cs p11 = pleaseLogin c
       \<and> leaveRoom c r p9 = pleaseLogin c
       \<and> sendMessage c message seq p12 = pleaseLogin c
       \<and> getRecentMessages c box k p13 = pleaseLogin c
       \<and> calls (pleaseLogin c) = []
       \<and> settled (pleaseLogin c) = Rejected (Error ''Please Login first'')"
  using assms
  by (simp add: longPoll_def getLastOpRevision_def getProfile_def addGroupsWithIds_def
      refreshContacts_def refreshGroups_def refreshActiveRooms_def createGroupWithIds_def
      createGroupWithContacts_def inviteIntoGroup_def acceptGroupInvitation_def leaveGroup_def
      createRoomWithIds_def createRoomWithContacts_def inviteIntoRoom_def leaveRoom_def
      sendMessage_def getRecentMessages_def pleaseLogin_def)

theorem longPoll_without_token_is_silent_witness:
  "longPoll (ex_session\<lparr>authToken := None\<rparr>) 50 (Resolved (Some [ex_received 105 ''g1''])) =
     \<lparr>p_state = ex_session\<lparr>authToken := None\<rparr>, p_calls = [], p_log = [],
      p_outcome = Finished\<rparr>
   \<and> settled (refreshContacts (ex_session\<lparr>authToken := None\<rparr>) Pending Pending) =
       Rejected (Error ''Please Login first'')"
proof -
  have no_token: "\<not> checkAuth (ex_session\<lparr>authToken := None\<rparr>)"
    by (simp add: checkAuth_def)
  show ?thesis
    by (simp add: longPoll_without_token_is_silent [OF no_token])
qed

text \<open>
  C6. The claim: \<^verbatim>\<open>refreshActiveRooms\<close> fetches pages of 50 one after the other until a
  page is short, that is \<open>ceil(total/50)\<close> pages, and appends a room for each room-typed
  box. The code: with a token it asks for the one page at \<open>start = 1\<close>, whatever the
  remote holds, and returns the room store as it is; the handler of the page asks for no
  room, whatever the page holds, so the room store stays as it was.
\<close>

theorem refreshActiveRooms_asks_for_one_page:
  assumes "checkAuth c"
  shows "refreshActiveRooms c =
           \<lparr>state = c, calls = [GetMessageBoxCompactWrapUpList 1 50],
            settled = Resolved (rooms c)\<rparr>
       \<and> on_page ch = Inr []
       \<and> rooms_settled c page getRoom = c"
  using assms
  by (simp add: refreshActiveRooms_def page_loop_once on_page_none rooms_settled_same)

theorem refreshActiveRooms_asks_for_one_page_witness:
  "calls (refreshActiveRooms ex_session) = [GetMessageBoxCompactWrapUpList 1 50]
   \<and> on_page \<lparr>messageBoxWrapUpList = Some (replicate 50 ex_room_box)\<rparr> = Inr []
   \<and> rooms (rooms_settled ex_session
        (Resolved \<lparr>messageBoxWrapUpList = Some (replicate 50 ex_room_box)\<rparr>)
        (\<lambda>i. Resolved \<lparr>rr_mid = i, rr_contacts = None\<rparr>)) = []"
proof -
  have none: "rooms ex_session = []"
    by (simp add: ex_session_def)
  show ?thesis
    using refreshActiveRooms_asks_for_one_page [OF ex_session_auth,
        of "\<lparr>messageBoxWrapUpList = Some (replicate 50 ex_room_box)\<rparr>"
        "Resolved \<lparr>messageBoxWrapUpList = Some (replicate 50 ex_room_box)\<rparr>"
        "\<lambda>i. Resolved \<lparr>rr_mid = i, rr_contacts = None\<rparr>"]
    by (simp add: none)
qed

text \<open>
  C7. The claim: when the sender or the receiver is unresolved, one repair pass runs
  before the cycle yields, the ids are then resolved once more against the repaired
  directory, and the triple is yielded even if an id is still unresolved. The code: the
  three refreshes are started once, in the order groups, contacts, rooms (four remote
  calls after the fetch), and the triple is yielded whatever the second lookup gives; but
  no refresh is awaited, so the second lookup reads the directory as it was, and the
  triple carries the sender and receiver of the first lookup.
\<close>

theorem repair_is_not_awaited:
  assumes "checkAuth c"
    and "otype operation \<in> {END_OF_OPERATION, SEND_MESSAGE, RECEIVE_MESSAGE}"
    and "omessage operation = Some raw"
    and "getContactOrRoomOrGroupById c (from_u raw) = VUndefined
         \<or> getContactOrRoomOrGroupById c (m_to raw) = VUndefined"
  shows "longPoll c n (Resolved (Some (operation # rest))) =
           \<lparr>p_state = c\<lparr>revision := max (orevision operation) (revision c)\<rparr>,
            p_calls = [FetchOperations (revision c) n, GetGroupIdsJoined, GetGroupIdsInvited,
                       GetAllContactIds, GetMessageBoxCompactWrapUpList 1 50],
            p_log = [],
            p_outcome = Event (getContactOrRoomOrGroupById c (from_u raw))
              (getContactOrRoomOrGroupById c (m_to raw)) (LineMessage c raw)
              (max (orevision operation) (revision c))\<rparr>"
  using assms by (auto simp: longPoll_message on_message_event)

theorem repair_is_not_awaited_witness:
  "p_outcome (longPoll ex_session 50 (Resolved (Some [ex_received 105 ''u1'']))) =
     Event VUndefined VUndefined (LineMessage ex_session (ex_hello ''u1'')) 105
   \<and> p_calls (longPoll ex_session 50 (Resolved (Some [ex_received 105 ''u1'']))) =
       [FetchOperations 100 50, GetGroupIdsJoined, GetGroupIdsInvited, GetAllContactIds,
        GetMessageBoxCompactWrapUpList 1 50]
   \<and> getContactOrRoomOrGroupById
        (state (refreshContacts ex_session (Resolved [''u1'']) (Resolved [ex_raw ''u1''])))
        ''u1'' = VContact ex_ann"
proof -
  have unknown: "getContactOrRoomOrGroupById ex_session i = VUndefined" for i
    by (simp add: getContactOrRoomOrGroupById_def js_or_def ex_session_def)
  have repaired: "getContactOrRoomOrGroupById
        (state (refreshContacts ex_session (Resolved [''u1'']) (Resolved [ex_raw ''u1''])))
        ''u1'' = VContact ex_ann"
    by (simp add: refreshContacts_def ex_session_auth js_sort_def LineContact_def ex_raw_def
        ex_ann_def getContactOrRoomOrGroupById_def js_or_def Let_def)
  show ?thesis
    using repair_is_not_awaited [OF ex_session_auth, of "ex_received 105 ''u1''"
        "ex_hello ''u1''" 50 "[]"]
    by (simp add: unknown ex_session_revision repaired ex_received_def)
qed

text \<open>
  C8. The claim: a contact's \<^verbatim>\<open>rooms\<close> and \<^verbatim>\<open>groups\<close> are the rooms and groups of the
  directory whose members include the contact's id, and \<^verbatim>\<open>_containId(id)\<close> is true
  exactly when the id is among the ids of the members. The code: \<^verbatim>\<open>_containId\<close> looks
  the id string up among the member objects and is false for every id; so \<^verbatim>\<open>rooms\<close> is
  always empty, and \<^verbatim>\<open>groups\<close>, a \<^verbatim>\<open>map\<close>, is a list of \<^verbatim>\<open>false\<close>, one for each group
  of the directory.
\<close>

theorem containId_is_always_false:
  "group_containId g i = False
   \<and> room_containId r i = False
   \<and> contact_rooms cl this = []
   \<and> contact_groups cl this = replicate (length (groups cl)) False"
  by (simp add: group_containId_def room_containId_def contact_rooms_def contact_groups_def
      indexOf_contacts map_replicate_const)

theorem containId_is_always_false_witness:
  "group_containId ex_team ''u1'' = False
   \<and> room_containId ex_den ''u1'' = False
   \<and> contact_rooms (ex_session\<lparr>rooms := [ex_den]\<rparr>) ex_ann = []
   \<and> contact_groups (ex_session\<lparr>groups := [ex_team, ex_club]\<rparr>) ex_ann = [False, False]"
  using containId_is_always_false [of ex_team "''u1''" ex_den
      "ex_session\<lparr>rooms := [ex_den]\<rparr>" ex_ann]
    containId_is_always_false [of ex_team "''u1''" ex_den
      "ex_session\<lparr>groups := [ex_team, ex_club]\<rparr>" ex_ann]
  by simp

text \<open>
  C9. If the fetch of a cycle is rejected with a \<^verbatim>\<open>TalkException\<close> of code 9, the cycle
  throws the error \<^verbatim>\<open>user logged in on another machine\<close> to its driver. A fetch rejected
  with any other error ends the cycle with nothing, the session unchanged. A cycle throws
  only in the first case; and every cycle that caught an error (a rejected fetch, the
  missing operation list, an operation without its message) leaves the session, and so the
  revision, unchanged.
\<close>

theorem session_conflict_only_on_code_9:
  "(checkAuth c \<longrightarrow>
      longPoll c n (Rejected (TalkException 9 reason)) =
        \<lparr>p_state = c, p_calls = [FetchOperations (revision c) n],
         p_log = [ConsoleError (TalkException 9 reason)],
         p_outcome = Thrown (Error ''user logged in on another machine'')\<rparr>)
   \<and> (checkAuth c \<and> \<not> concurrent_session err \<longrightarrow>
      longPoll c n (Rejected err) =
        \<lparr>p_state = c, p_calls = [FetchOperations (revision c) n],
         p_log = [ConsoleError err], p_outcome = Finished\<rparr>)
   \<and> (p_outcome (longPoll c n fetched) = Thrown e \<longrightarrow>
      checkAuth c \<and> (\<exists>why. fetched = Rejected (TalkException 9 why))
      \<and> e = Error ''user logged in on another machine'')
   \<and> (p_log (longPoll c n fetched) = [ConsoleError caught] \<longrightarrow>
      p_state (longPoll c n fetched) = c)"
proof (intro conjI impI)
  assume "checkAuth c"
  then show "longPoll c n (Rejected (TalkException 9 reason)) =
        \<lparr>p_state = c, p_calls = [FetchOperations (revision c) n],
         p_log = [ConsoleError (TalkException 9 reason)],
         p_outcome = Thrown (Error ''user logged in on another machine'')\<rparr>"
    by (simp add: longPoll_def longPoll_catch_def)
next
  assume "checkAuth c \<and> \<not> concurrent_session err"
  then show "longPoll c n (Rejected err) =
        \<lparr>p_state = c, p_calls = [FetchOperations (revision c) n],
         p_log = [ConsoleError err], p_outcome = Finished\<rparr>"
    by (simp add: longPoll_def longPoll_catch_def concurrent_session_def split: error.splits)
next
  assume thrown: "p_outcome (longPoll c n fetched) = Thrown e"
  show "checkAuth c"
    using thrown by (cases "checkAuth c") (simp_all add: longPoll_def)
  then have auth: "checkAuth c" .
  have "(\<exists>why. fetched = Rejected (TalkException 9 why))
      \<and> e = Error ''user logged in on another machine''"
  proof (cases fetched)
    case Pending
    with thrown auth show ?thesis by (simp add: longPoll_def)
  next
    case (Rejected err)
    with thrown auth show ?thesis
      by (cases err) (auto simp: longPoll_def longPoll_catch_def split: if_splits)
  next
    case (Resolved got)
    show ?thesis
    proof (cases got)
      case None
      with Resolved thrown auth show ?thesis by (simp add: longPoll_def longPoll_catch_def)
    next
      case (Some operations)
      show ?thesis
      proof (cases operations)
        case Nil
        with Resolved Some thrown auth show ?thesis by (simp add: longPoll_def)
      next
        case (Cons operation rest)
        show ?thesis
        proof (cases "omessage operation")
          case None
          with Resolved Some Cons thrown auth show ?thesis
            by (simp add: longPoll_def on_message_def longPoll_catch_def Let_def
                split: op_type.splits)
        next
          case (Some raw)
          with Resolved \<open>got = Some operations\<close> Cons thrown auth show ?thesis
            by (simp add: longPoll_def on_message_event Let_def split: op_type.splits)
        qed
      qed
    qed
  qed
  then show "\<exists>why. fetched = Rejected (TalkException 9 why)"
    and "e = Error ''user logged in on another machine''" by simp_all
next
  assume logged: "p_log (longPoll c n fetched) = [ConsoleError caught]"
  show "p_state (longPoll c n fetched) = c"
  proof (cases "checkAuth c")
    case False
    then show ?thesis by (simp add: longPoll_def)
  next
    case auth: True
    show ?thesis
    proof (cases fetched)
      case Pending
      with auth show ?thesis by (simp add: longPoll_def)
    next
      case (Rejected err)
      with auth show ?thesis by (simp add: longPoll_def longPoll_catch_def)
    next
      case (Resolved got)
      show ?thesis
      proof (cases got)
        case None
        with Resolved auth show ?thesis by (simp add: longPoll_def longPoll_catch_def)
      next
        case (Some operations)
        show ?thesis
        proof (cases operations)
          case Nil
          with Resolved Some auth show ?thesis by (simp add: longPoll_def)
        next
          case (Cons operation rest)
          show ?thesis
          proof (cases "omessage operation")
            case None
            with Resolved Some Cons auth show ?thesis
              by (simp add: longPoll_def on_message_def longPoll_catch_def Let_def
                  split: op_type.splits)
          next
            case (Some raw)
            with Resolved \<open>got = Some operations\<close> Cons logged auth show ?thesis
              by (simp add: longPoll_def on_message_event Let_def split: op_type.splits)
          qed
        qed
      qed
    qed
  qed
qed

theorem session_conflict_only_on_code_9_witness:
  "p_outcome (longPoll ex_session 50 (Rejected (TalkException 9 ''elsewhere''))) =
     Thrown (Error ''user logged in on another machine'')
   \<and> longPoll ex_session 50 (Rejected (TalkException 8 ''expired'')) =
       \<lparr>p_state = ex_session, p_calls = [FetchOperations 100 50],
        p_log = [ConsoleError (TalkException 8 ''expired'')], p_outcome = Finished\<rparr>"
proof -
  have other: "\<not> concurrent_session (TalkException 8 ''expired'')"
    by (simp add: concurrent_session_def)
  show ?thesis
    using session_conflict_only_on_code_9 [of ex_session 50 "''elsewhere''"
        "TalkException 8 ''expired''"]
    by (simp add: ex_session_auth ex_session_revision other)
qed

text \<open>
  C10. With a token held, \<^verbatim>\<open>leaveGroup(g)\<close> and \<^verbatim>\<open>leaveRoom(r)\<close> issue the one
  remote leave call. If it succeeds the promise resolves with \<^verbatim>\<open>true\<close> and the store
  keeps, in order, exactly the entries whose id differs from the argument's id, every other
  field of the session being unchanged; if it fails the promise resolves with \<^verbatim>\<open>false\<close>
  (it is not rejected, the remote error is dropped) and the session is unchanged.
\<close>

theorem leave_resolves_and_filters:
  assumes "checkAuth c"
  shows "leaveGroup c g (Resolved u) =
           \<lparr>state = c\<lparr>groups := [gp \<leftarrow> groups c. g_id gp \<noteq> g_id g]\<rparr>,
            calls = [LeaveGroup (g_id g)], settled = Resolved True\<rparr>
       \<and> leaveGroup c g (Rejected e) =
           \<lparr>state = c, calls = [LeaveGroup (g_id g)], settled = Resolved False\<rparr>
       \<and> leaveRoom c r (Resolved u) =
           \<lparr>state = c\<lparr>rooms := [rm \<leftarrow> rooms c. r_id rm \<noteq> r_id r]\<rparr>,
            calls = [LeaveRoom (r_id r)], settled = Resolved True\<rparr>
       \<and> leaveRoom c r (Rejected e) =
           \<lparr>state = c, calls = [LeaveRoom (r_id r)], settled = Resolved False\<rparr>"
  using assms by (simp add: leaveGroup_def leaveRoom_def)

theorem leave_resolves_and_filters_witness:
  "leaveGroup (ex_session\<lparr>groups := [ex_team, ex_club]\<rparr>) ex_team (Resolved ()) =
     \<lparr>state = ex_session\<lparr>groups := [ex_club]\<rparr>, calls = [LeaveGroup ''g1''],
      settled = Resolved True\<rparr>
   \<and> leaveRoom (ex_session\<lparr>rooms := [ex_den]\<rparr>) ex_den (Rejected (Error ''down'')) =
     \<lparr>state = ex_session\<lparr>rooms := [ex_den]\<rparr>, calls = [LeaveRoom ''r1''],
      settled = Resolved False\<rparr>"
proof -
  have a: "checkAuth (ex_session\<lparr>groups := [ex_team, ex_club]\<rparr>)"
    and b: "checkAuth (ex_session\<lparr>rooms := [ex_den]\<rparr>)"
    by (simp_all add: checkAuth_def ex_session_def)
  show ?thesis
    using leave_resolves_and_filters [OF a, of ex_team "()" "Error ''down''" ex_den]
      leave_resolves_and_filters [OF b, of ex_team "()" "Error ''down''" ex_den]
    by (simp add: ex_team_def ex_club_def ex_den_def)
qed

end
